theory Spec2Isabelle
  imports Main "HOL-Library.List_Lexorder"
begin

section \<open>The AI query web app (app.py): data model\<close>

text \<open>
  The program is a Flask backend with three routes that touch one SQLite table
  (the fourth, \<open>index_route\<close>, renders a template and never opens the database).
  A Python \<open>str\<close> is a sequence of code points, modelled as a list of numbers;
  a lone surrogate (U+D800 to U+DFFF) may occur in it, as \<open>json.loads\<close> lets it.
  Python compares strings by code point, lexicographically. \<open>str\<close> writes a
  literal. A request body is the JSON value that \<open>request.get_json(force=True)\<close>
  has parsed; a body that is not JSON is refused there and never reaches the code
  below. A JSON object is a Python dict, modelled as a map.
  Each function takes what its environment does as arguments: the outcome of the call
  to the model, whether the database can be used at each access, and the clock.
\<close>

type_synonym pystr = "nat list"

definition str :: "string \<Rightarrow> pystr" where
  "str s = map of_char s"

datatype json =
    JNull
  | JBool bool
  | JInt int
  | JFloat int int  \<comment> \<open>mantissa and binary exponent\<close>
  | JStr pystr
  | JArr "json list"
  | JObj "pystr \<Rightarrow> json option"

text \<open>
  The exceptions that occur, each with its message: \<open>AttributeError\<close> from an
  attribute that the value does not have, \<open>sqlite3.OperationalError\<close> from the
  database, \<open>UnicodeEncodeError\<close> from binding a text that UTF-8 cannot encode.
  \<open>str_of_exn\<close> is \<open>str(exc)\<close>.
\<close>

datatype exn = AttributeError pystr | OperationalError pystr | UnicodeEncodeError pystr

fun str_of_exn :: "exn \<Rightarrow> pystr" where
  "str_of_exn (AttributeError m) = m"
| "str_of_exn (OperationalError m) = m"
| "str_of_exn (UnicodeEncodeError m) = m"

text \<open>The name of the Python type that a parsed JSON value has.\<close>

fun type_name :: "json \<Rightarrow> pystr" where
  "type_name JNull = str ''NoneType''"
| "type_name (JBool b) = str ''bool''"
| "type_name (JInt i) = str ''int''"
| "type_name (JFloat m e) = str ''float''"
| "type_name (JStr s) = str ''str''"
| "type_name (JArr xs) = str ''list''"
| "type_name (JObj m) = str ''dict''"

text \<open>Code point 39 is the apostrophe.\<close>

definition no_attribute :: "json \<Rightarrow> pystr \<Rightarrow> exn" where
  "no_attribute v a =
     AttributeError ([39] @ type_name v @ [39] @ str '' object has no attribute '' @
                     [39] @ a @ [39])"

record response =
  status :: nat
  body :: json

subsection \<open>Numbers in decimal and in hexadecimal\<close>

definition digit_char :: "nat \<Rightarrow> nat" where
  "digit_char n = 48 + n"

text \<open>The decimal digits of a number, as \<open>%d\<close> prints them.\<close>

function digits :: "nat \<Rightarrow> pystr" where
  "digits n = (if n < 10 then [digit_char n] else digits (n div 10) @ [digit_char (n mod 10)])"
  by pat_completeness auto
termination
  by (relation "measure (\<lambda>n. n)") auto

declare digits.simps [simp del]

text \<open>\<open>%0wd\<close>: zero-padded on the left to at least \<open>w\<close> characters.\<close>

definition zpad :: "nat \<Rightarrow> nat \<Rightarrow> pystr" where
  "zpad w n = replicate (w - length (digits n)) 48 @ digits n"

text \<open>\<open>%04x\<close> of a code point below 65536: four hexadecimal digits, in lower case.\<close>

definition hex_char :: "nat \<Rightarrow> nat" where
  "hex_char n = (if n < 10 then 48 + n else 87 + n)"

definition hex4 :: "nat \<Rightarrow> pystr" where
  "hex4 c =
     [hex_char (c div 4096 mod 16), hex_char (c div 256 mod 16), hex_char (c div 16 mod 16),
      hex_char (c mod 16)]"

subsection \<open>Text that UTF-8 cannot encode\<close>

text \<open>
  The sqlite3 module binds a \<open>str\<close> parameter as UTF-8. The strict encoder refuses a
  surrogate: it raises \<open>UnicodeEncodeError\<close> for the first run of surrogates, whose
  message names the character when the run has one, and the positions otherwise.
  Code point 92 is the backslash.
\<close>

definition surrogate :: "nat \<Rightarrow> bool" where
  "surrogate c = (55296 \<le> c \<and> c \<le> 57343)"

definition encodable :: "pystr \<Rightarrow> bool" where
  "encodable s = (\<forall>c \<in> set s. \<not> surrogate c)"

definition encode_error :: "pystr \<Rightarrow> exn" where
  "encode_error s =
     (let start = length (takeWhile (\<lambda>c. \<not> surrogate c) s);
          run = takeWhile surrogate (drop start s)
      in UnicodeEncodeError
           ([39] @ str ''utf-8'' @ [39] @ str '' codec can'' @ [39] @
            (if length run = 1
             then str ''t encode character '' @ [39, 92] @ str ''u'' @ hex4 (hd run) @ [39] @
                  str '' in position '' @ digits start
             else str ''t encode characters in position '' @ digits start @ str ''-'' @
                  digits (start + length run - 1)) @
            str '': surrogates not allowed''))"

subsection \<open>Timestamps: \<open>datetime.datetime.utcnow().isoformat()\<close>\<close>

text \<open>
  A naive datetime as Python holds it, in fields. Python compares two naive datetimes
  as the tuples of their fields, lexicographically.
\<close>

record datetime =
  year :: nat
  month :: nat
  day :: nat
  hour :: nat
  minute :: nat
  second :: nat
  microsecond :: nat




text \<open>
  \<open>isoformat()\<close> of a naive datetime: \<open>YYYY-MM-DDTHH:MM:SS\<close>, followed by
  \<open>.ffffff\<close> only when the microsecond field is not zero.
\<close>

definition format_time :: "datetime \<Rightarrow> pystr" where
  "format_time d =
     zpad 2 (hour d) @ str '':'' @ zpad 2 (minute d) @ str '':'' @ zpad 2 (second d) @
     (if microsecond d = 0 then [] else str ''.'' @ zpad 6 (microsecond d))"

definition isoformat :: "datetime \<Rightarrow> pystr" where
  "isoformat d =
     zpad 4 (year d) @ str ''-'' @ zpad 2 (month d) @ str ''-'' @ zpad 2 (day d) @ str ''T'' @
     format_time d"

subsection \<open>The table \<open>queries\<close>\<close>

text \<open>
  \<open>CREATE TABLE IF NOT EXISTS queries (id INTEGER PRIMARY KEY AUTOINCREMENT,
  question TEXT NOT NULL, answer TEXT, timestamp TEXT NOT NULL)\<close>.
  The column \<open>answer\<close> may hold NULL, so it is an option. The rows are kept in
  insertion order. \<open>seq\<close> is the entry of the table in \<open>sqlite_sequence\<close>, the
  largest id that AUTOINCREMENT has ever given out. The database file holds the
  table or does not (\<open>None\<close>).
\<close>

record query_row =
  qid :: int
  question :: pystr
  answer :: "pystr option"
  timestamp :: pystr

record table =
  rows :: "query_row list"
  seq :: int

type_synonym database = "table option"

text \<open>
  What the environment does at one access to the database, that is, during one call
  of a store function.
  \<open>open_fault\<close> is the message of the \<open>sqlite3.OperationalError\<close> raised when the
  file cannot be opened; \<open>step_fault\<close> the message of the one raised when the
  statement cannot run or commit (the database is locked, the disk fails); the
  parameters of a statement are bound between the two.
  Time is counted in ticks. \<open>wall\<close> is the clock of the machine, its reading at each
  tick; the call is entered at tick \<open>called_at\<close>, evaluates \<open>utcnow()\<close>
  \<open>read_after\<close> ticks later and returns \<open>return_after\<close> ticks after that.
\<close>

record access =
  open_fault :: "pystr option"
  step_fault :: "pystr option"
  wall :: "nat \<Rightarrow> datetime"
  called_at :: nat
  read_after :: nat
  return_after :: nat

definition utcnow :: "access \<Rightarrow> datetime" where
  "utcnow a = wall a (called_at a + read_after a)"


text \<open>
  The id of a new row, as SQLite chooses it with AUTOINCREMENT: one more than the
  largest id in the table (1 when the table is empty), and at least one more than the
  sequence. When the largest id in the table or the sequence is the largest 64-bit
  integer, the insert fails (SQLITE_FULL).
\<close>

fun largest_rowid :: "query_row list \<Rightarrow> int option" where
  "largest_rowid [] = None"
| "largest_rowid (r # rs) = Some (fold (\<lambda>x m. max (qid x) m) rs (qid r))"

definition rowid_full :: "table \<Rightarrow> bool" where
  "rowid_full t =
     (seq t = 9223372036854775807 \<or>
      (case largest_rowid (rows t) of None \<Rightarrow> False | Some k \<Rightarrow> 9223372036854775807 \<le> k))"

definition next_rowid :: "table \<Rightarrow> int" where
  "next_rowid t =
     max (case largest_rowid (rows t) of None \<Rightarrow> 1 | Some k \<Rightarrow> k + 1) (seq t + 1)"

definition init_db_if_missing :: "access \<Rightarrow> database \<Rightarrow> exn + database" where
  "init_db_if_missing a db =
     (case open_fault a of
        Some msg \<Rightarrow> Inl (OperationalError msg)
      | None \<Rightarrow>
          (case step_fault a of
             Some msg \<Rightarrow> Inl (OperationalError msg)
           | None \<Rightarrow>
               (case db of
                  None \<Rightarrow> Inr (Some \<lparr>rows = [], seq = 0\<rparr>)
                | Some t \<Rightarrow> Inr (Some t))))"

text \<open>
  \<open>INSERT INTO queries (question, answer, timestamp) VALUES (?, ?, ?)\<close> with the
  question, the answer and \<open>utcnow().isoformat()\<close>. The statement is prepared (the
  table must exist), the parameters are bound in their order (each text must be
  encodable), then the statement runs. A call that raises commits nothing.
\<close>

definition save_query_to_db :: "access \<Rightarrow> pystr \<Rightarrow> pystr \<Rightarrow> database \<Rightarrow> exn + database" where
  "save_query_to_db a question_text answer_text db =
     (case open_fault a of
        Some msg \<Rightarrow> Inl (OperationalError msg)
      | None \<Rightarrow>
          (case db of
             None \<Rightarrow> Inl (OperationalError (str ''no such table: queries''))
           | Some t \<Rightarrow>
               if \<not> encodable question_text then Inl (encode_error question_text)
               else if \<not> encodable answer_text then Inl (encode_error answer_text)
               else
                 (case step_fault a of
                    Some msg \<Rightarrow> Inl (OperationalError msg)
                  | None \<Rightarrow>
                      if rowid_full t
                      then Inl (OperationalError (str ''database or disk is full''))
                      else Inr (Some \<lparr>rows = rows t @
                                         [\<lparr>qid = next_rowid t, question = question_text,
                                           answer = Some answer_text,
                                           timestamp = isoformat (utcnow a)\<rparr>],
                                       seq = next_rowid t\<rparr>))))"

text \<open>\<open>DELETE FROM queries\<close>: every row goes, the table and its sequence stay.\<close>

definition clear_db_queries :: "access \<Rightarrow> database \<Rightarrow> exn + database" where
  "clear_db_queries a db =
     (case open_fault a of
        Some msg \<Rightarrow> Inl (OperationalError msg)
      | None \<Rightarrow>
          (case db of
             None \<Rightarrow> Inl (OperationalError (str ''no such table: queries''))
           | Some t \<Rightarrow>
               (case step_fault a of
                  Some msg \<Rightarrow> Inl (OperationalError msg)
                | None \<Rightarrow> Inr (Some (t\<lparr>rows := []\<rparr>)))))"

subsection \<open>The routes\<close>

text \<open>Python's \<open>str.isspace\<close> on a code point, and \<open>str.strip()\<close>.\<close>

definition py_isspace :: "nat \<Rightarrow> bool" where
  "py_isspace c =
     (c \<in> {9, 10, 11, 12, 13, 28, 29, 30, 31, 32, 133, 160, 5760, 8232, 8233, 8239, 8287,
            12288} \<or>
      (8192 \<le> c \<and> c \<le> 8202))"

definition strip :: "pystr \<Rightarrow> pystr" where
  "strip s = rev (dropWhile py_isspace (rev (dropWhile py_isspace s)))"

text \<open>\<open>body_json.get(key, default)\<close>: only a dict has \<open>get\<close>.\<close>

definition dict_get :: "json \<Rightarrow> pystr \<Rightarrow> json \<Rightarrow> exn + json" where
  "dict_get j k d =
     (case j of
        JObj m \<Rightarrow> Inr (case m k of None \<Rightarrow> d | Some v \<Rightarrow> v)
      | _ \<Rightarrow> Inl (no_attribute j (str ''get'')))"

text \<open>\<open>v.strip()\<close>: only a str has \<open>strip\<close>.\<close>

definition str_strip :: "json \<Rightarrow> exn + pystr" where
  "str_strip v =
     (case v of
        JStr s \<Rightarrow> Inr (strip s)
      | _ \<Rightarrow> Inl (no_attribute v (str ''strip'')))"

text \<open>\<open>if not gemini_env_key\<close>: the variable is unset or set to the empty string.\<close>

definition key_missing :: "pystr option \<Rightarrow> bool" where
  "key_missing k = (case k of None \<Rightarrow> True | Some s \<Rightarrow> s = [])"

definition config_error_text :: pystr where
  "config_error_text =
     str ''GEMINI_API_KEY is not set on the server. Set it as an environment variable.''"

text \<open>The three places where \<open>ask_route\<close> calls \<open>_save_query_to_db\<close>.\<close>

datatype save_site = SaveNoKey | SaveInTry | SaveInHandler

definition answer_response :: "nat \<Rightarrow> pystr \<Rightarrow> response" where
  "answer_response st a = \<lparr>status = st, body = JObj [str ''answer'' \<mapsto> JStr a]\<rparr>"

text \<open>
  The body of the \<open>try\<close> block. \<open>generate_content\<close> is the outcome of the call to
  the model and of reading \<open>resp.text\<close>: \<open>Inr\<close> the text, or \<open>Inl\<close> the \<open>str\<close> of the
  \<open>Exception\<close> raised. The result is \<open>Inl\<close> the \<open>str\<close> of whatever exception the
  block raised: the save is inside the block, so its exception is caught as well.
\<close>

definition ask_try ::
  "(pystr \<Rightarrow> pystr + pystr) \<Rightarrow> (save_site \<Rightarrow> access) \<Rightarrow> pystr \<Rightarrow> database \<Rightarrow>
   pystr + response \<times> database" where
  "ask_try generate_content io q_text db =
     (case generate_content q_text of
        Inl exc \<Rightarrow> Inl exc
      | Inr answer_text \<Rightarrow>
          (case save_query_to_db (io SaveInTry) q_text answer_text db of
             Inl e \<Rightarrow> Inl (str_of_exn e)
           | Inr db' \<Rightarrow> Inr (answer_response 200 answer_text, db')))"

text \<open>
  \<open>ask_route\<close>. The result is the response, or the exception that leaves the view
  function uncaught, and the database afterwards.
\<close>

definition ask_route ::
  "pystr option \<Rightarrow> (pystr \<Rightarrow> pystr + pystr) \<Rightarrow> (save_site \<Rightarrow> access) \<Rightarrow> json \<Rightarrow>
   database \<Rightarrow> (exn + response) \<times> database" where
  "ask_route gemini_env_key generate_content io body_json db =
     (case dict_get body_json (str ''question'') (JStr []) of
        Inl e \<Rightarrow> (Inl e, db)
      | Inr v \<Rightarrow>
          (case str_strip v of
             Inl e \<Rightarrow> (Inl e, db)
           | Inr q_text \<Rightarrow>
               if q_text = []
               then (Inr \<lparr>status = 400,
                          body = JObj [str ''error'' \<mapsto> JStr (str ''Empty question'')]\<rparr>, db)
               else if key_missing gemini_env_key
               then
                 (case save_query_to_db (io SaveNoKey) q_text config_error_text db of
                    Inl e \<Rightarrow> (Inl e, db)
                  | Inr db' \<Rightarrow> (Inr (answer_response 500 config_error_text), db'))
               else
                 (case ask_try generate_content io q_text db of
                    Inr (resp, db') \<Rightarrow> (Inr resp, db')
                  | Inl exc \<Rightarrow>
                      (let err_msg = str ''Error calling Gemini: '' @ exc in
                       case save_query_to_db (io SaveInHandler) q_text err_msg db of
                         Inl e \<Rightarrow> (Inl e, db)
                       | Inr db' \<Rightarrow> (Inr (answer_response 500 err_msg), db')))))"

text \<open>\<open>dict(r)\<close> for a fetched row.\<close>

definition row_dict :: "query_row \<Rightarrow> json" where
  "row_dict r =
     JObj [str ''id'' \<mapsto> JInt (qid r),
           str ''question'' \<mapsto> JStr (question r),
           str ''answer'' \<mapsto> (case answer r of None \<Rightarrow> JNull | Some a \<Rightarrow> JStr a),
           str ''timestamp'' \<mapsto> JStr (timestamp r)]"

text \<open>\<open>SELECT ... FROM queries ORDER BY id DESC LIMIT n\<close>.\<close>

definition select_recent :: "nat \<Rightarrow> table \<Rightarrow> query_row list" where
  "select_recent n t = take n (rev (sort_key qid (rows t)))"

definition history_route :: "access \<Rightarrow> database \<Rightarrow> (exn + response) \<times> database" where
  "history_route a db =
     (case open_fault a of
        Some msg \<Rightarrow> (Inl (OperationalError msg), db)
      | None \<Rightarrow>
          (case db of
             None \<Rightarrow> (Inl (OperationalError (str ''no such table: queries'')), db)
           | Some t \<Rightarrow>
               (case step_fault a of
                  Some msg \<Rightarrow> (Inl (OperationalError msg), db)
                | None \<Rightarrow>
                    (Inr \<lparr>status = 200,
                          body = JObj [str ''history'' \<mapsto>
                                         JArr (map row_dict (select_recent 50 t))]\<rparr>,
                     db))))"

definition clear_history_route :: "access \<Rightarrow> database \<Rightarrow> (exn + response) \<times> database" where
  "clear_history_route a db =
     (case clear_db_queries a db of
        Inl e \<Rightarrow> (Inl e, db)
      | Inr db' \<Rightarrow>
          (Inr \<lparr>status = 200,
                body = JObj [str ''success'' \<mapsto> JBool True,
                             str ''message'' \<mapsto> JStr (str ''History cleared'')]\<rparr>,
           db'))"

subsection \<open>Notions used in the statements\<close>

text \<open>The storage serves an access.\<close>

definition storage_ok :: "access \<Rightarrow> bool" where
  "storage_ok a = (open_fault a = None \<and> step_fault a = None)"

text \<open>The table can take one more row: its ids are not used up.\<close>

definition insertable :: "table \<Rightarrow> bool" where
  "insertable t = (\<not> rowid_full t)"

text \<open>The row that a successful insert adds.\<close>

definition new_row :: "table \<Rightarrow> access \<Rightarrow> pystr \<Rightarrow> pystr \<Rightarrow> query_row" where
  "new_row t a q ans =
     \<lparr>qid = next_rowid t, question = q, answer = Some ans, timestamp = isoformat (utcnow a)\<rparr>"

text \<open>
  The invariant of the table: the ids grow strictly along the rows, which are in
  insertion order; no id exceeds the sequence; no answer is NULL. The other three
  columns cannot be NULL by their type.
\<close>

definition table_inv :: "table \<Rightarrow> bool" where
  "table_inv t =
     (sorted_wrt (<) (map qid (rows t)) \<and>
      (\<forall>r \<in> set (rows t). qid r \<le> seq t \<and> answer r \<noteq> None))"

text \<open>
  What one operation may do to the rows: nothing; remove all of them and keep the
  sequence; or add one row at the end, with an id above every id given out so far,
  and leave the rows before it as they are.
\<close>

definition row_step :: "table \<Rightarrow> table \<Rightarrow> bool" where
  "row_step t t' =
     (t' = t \<or>
      (rows t' = [] \<and> seq t' = seq t) \<or>
      (rows t' \<noteq> [] \<and> butlast (rows t') = rows t \<and>
       seq t < qid (last (rows t')) \<and> seq t' = qid (last (rows t'))))"

definition step_ok :: "table \<Rightarrow> database \<Rightarrow> bool" where
  "step_ok t db' = (case db' of None \<Rightarrow> False | Some t' \<Rightarrow> table_inv t' \<and> row_step t t')"

text \<open>The database after a store function: unchanged when the function raised.\<close>

definition state_after :: "database \<Rightarrow> exn + database \<Rightarrow> database" where
  "state_after db r = (case r of Inl e \<Rightarrow> db | Inr db' \<Rightarrow> db')"



subsection \<open>Concrete inputs for the examples\<close>

text \<open>A clock that advances by one microsecond per tick and then stands still.\<close>

definition example_wall :: "nat \<Rightarrow> datetime" where
  "example_wall n =
     \<lparr>year = 2024, month = 3, day = 9, hour = 7, minute = 5, second = 0,
      microsecond = min n 999999\<rparr>"


definition example_access :: access where
  "example_access =
     \<lparr>open_fault = None, step_fault = None, wall = example_wall, called_at = 1000,
      read_after = 200, return_after = 300\<rparr>"

definition storage_up :: "save_site \<Rightarrow> access" where
  "storage_up s = example_access"



definition empty_table :: table where
  "empty_table = \<lparr>rows = [], seq = 0\<rparr>"

definition example_rows :: table where
  "example_rows =
     \<lparr>rows = [\<lparr>qid = 1, question = str ''hi'', answer = Some (str ''hello''),
               timestamp = str ''2024-03-09T07:04:58''\<rparr>,
              \<lparr>qid = 2, question = str ''why?'',
               answer = Some (str ''Error calling Gemini: timeout''),
               timestamp = str ''2024-03-09T07:04:59.500000''\<rparr>],
      seq = 2\<rparr>"

definition example_body :: json where
  "example_body = JObj [str ''question'' \<mapsto> JStr (str '' 2+2? '')]"

text \<open>
  Gateways: one that answers, one that fails, one whose failure has a description
  that holds a surrogate.
\<close>

definition gateway_four :: "pystr \<Rightarrow> pystr + pystr" where
  "gateway_four q = Inr (str ''4'')"




section \<open>Auxiliary facts\<close>

subsection \<open>Literals\<close>

lemma str_eq_iff [simp]: "str a = str b \<longleftrightarrow> a = b"
proof -
  have "inj (of_char :: char \<Rightarrow> nat)"
    by (rule injI) simp
  then show ?thesis
    by (auto simp: str_def dest: inj_mapD injD)
qed

lemma str_Nil_iff [simp]: "str a = [] \<longleftrightarrow> a = []"
  by (simp add: str_def)

subsection \<open>Trimming\<close>

lemma all_dropWhile: "(\<forall>x\<in>set (dropWhile P s). P x) \<longleftrightarrow> (\<forall>c\<in>set s. P c)"
  by (induction s) auto

lemma strip_Nil_iff: "strip s = [] \<longleftrightarrow> (\<forall>c \<in> set s. py_isspace c)"
  by (simp add: strip_def all_dropWhile)

lemma set_strip: "set (strip s) \<subseteq> set s"
proof -
  have "set (strip s) \<subseteq> set (dropWhile py_isspace s)"
    unfolding strip_def using set_dropWhileD by fastforce
  also have "\<dots> \<subseteq> set s"
    using set_dropWhileD by fastforce
  finally show ?thesis .
qed

lemma encodable_strip: "encodable s \<Longrightarrow> encodable (strip s)"
  using set_strip [of s] by (auto simp: encodable_def)

subsection \<open>The message of an encoding error is plain ASCII\<close>








lemma encodable_append: "encodable (a @ b) \<longleftrightarrow> encodable a \<and> encodable b"
  by (auto simp: encodable_def)


subsection \<open>The id of a new row\<close>

lemma fold_max_ge_init: "m0 \<le> fold (\<lambda>r m. max (qid r) m) rs (m0::int)"
proof (induction rs arbitrary: m0)
  case Nil
  show ?case by simp
next
  case (Cons x rs)
  have "m0 \<le> max (qid x) m0" by simp
  also have "\<dots> \<le> fold (\<lambda>r m. max (qid r) m) rs (max (qid x) m0)" by (rule Cons.IH)
  finally show ?case by simp
qed

lemma fold_max_ge_elem: "r \<in> set rs \<Longrightarrow> qid r \<le> fold (\<lambda>r m. max (qid r) m) rs m0"
proof (induction rs arbitrary: m0)
  case Nil
  then show ?case by simp
next
  case (Cons x rs)
  show ?case
  proof (cases "r = x")
    case True
    have "qid x \<le> max (qid x) m0" by simp
    also have "\<dots> \<le> fold (\<lambda>r m. max (qid r) m) rs (max (qid x) m0)" by (rule fold_max_ge_init)
    finally show ?thesis using True by simp
  next
    case False
    with Cons.prems have "r \<in> set rs" by simp
    then show ?thesis using Cons.IH by simp
  qed
qed

lemma largest_rowid_ge: "r \<in> set rs \<Longrightarrow> \<exists>k. largest_rowid rs = Some k \<and> qid r \<le> k"
proof (cases rs)
  case Nil
  then show "r \<in> set rs \<Longrightarrow> ?thesis" by simp
next
  case (Cons x xs)
  assume "r \<in> set rs"
  with Cons have "r = x \<or> r \<in> set xs" by simp
  then have "qid r \<le> fold (\<lambda>x m. max (qid x) m) xs (qid x)"
    using fold_max_ge_init [of "qid x" xs] fold_max_ge_elem [of r xs "qid x"] by auto
  with Cons show ?thesis by simp
qed

lemma next_rowid_greatest: "r \<in> set (rows t) \<Longrightarrow> qid r < next_rowid t"
  using largest_rowid_ge [of r "rows t"] by (auto simp: next_rowid_def)

lemma next_rowid_above_seq: "seq t < next_rowid t"
  by (simp add: next_rowid_def)

lemma new_row_greatest: "\<forall>x \<in> set (rows t). qid x < qid (new_row t a q ans)"
  by (simp add: new_row_def next_rowid_greatest)

subsection \<open>The insert\<close>

lemma save_ok:
  "storage_ok a \<Longrightarrow> insertable t \<Longrightarrow> encodable q \<Longrightarrow> encodable ans \<Longrightarrow>
   save_query_to_db a q ans (Some t) =
     Inr (Some \<lparr>rows = rows t @ [new_row t a q ans], seq = qid (new_row t a q ans)\<rparr>)"
  by (simp add: save_query_to_db_def storage_ok_def insertable_def new_row_def)





lemma save_cases:
  "(\<exists>e. save_query_to_db a q ans (Some t) = Inl e) \<or>
   save_query_to_db a q ans (Some t) =
     Inr (Some \<lparr>rows = rows t @ [new_row t a q ans], seq = qid (new_row t a q ans)\<rparr>)"
  by (simp add: save_query_to_db_def new_row_def split: option.split)

lemma save_Inr:
  "save_query_to_db a q ans (Some t0) = Inr db' \<Longrightarrow>
   db' = Some \<lparr>rows = rows t0 @ [new_row t0 a q ans], seq = qid (new_row t0 a q ans)\<rparr>"
  using save_cases [of a q ans t0] by auto


subsection \<open>The paths of Ask\<close>

lemma ask_question:
  "dict_get body_json (str ''question'') (JStr []) = Inr (JStr q) \<Longrightarrow>
   ask_route key gen io body_json db =
     (if strip q = []
      then (Inr \<lparr>status = 400,
                 body = JObj [str ''error'' \<mapsto> JStr (str ''Empty question'')]\<rparr>, db)
      else if key_missing key
      then
        (case save_query_to_db (io SaveNoKey) (strip q) config_error_text db of
           Inl e \<Rightarrow> (Inl e, db)
         | Inr db' \<Rightarrow> (Inr (answer_response 500 config_error_text), db'))
      else
        (case ask_try gen io (strip q) db of
           Inr (resp, db') \<Rightarrow> (Inr resp, db')
         | Inl exc \<Rightarrow>
             (case save_query_to_db (io SaveInHandler) (strip q)
                     (str ''Error calling Gemini: '' @ exc) db of
                Inl e \<Rightarrow> (Inl e, db)
              | Inr db' \<Rightarrow>
                  (Inr (answer_response 500 (str ''Error calling Gemini: '' @ exc)), db'))))"
  by (simp add: ask_route_def str_strip_def Let_def split: sum.split)

lemma str_strip_Inr: "str_strip v = Inr q_text \<Longrightarrow> \<exists>q. v = JStr q \<and> q_text = strip q"
  by (cases v) (auto simp: str_strip_def)

lemma ask_route_answered:
  assumes "ask_route key gen io body_json (Some t0) = (Inr resp, Some t)" and "status resp \<noteq> 400"
  shows "\<exists>q ans a. dict_get body_json (str ''question'') (JStr []) = Inr (JStr q) \<and>
           body resp = JObj [str ''answer'' \<mapsto> JStr ans] \<and>
           t = \<lparr>rows = rows t0 @ [new_row t0 a (strip q) ans], seq = qid (new_row t0 a (strip q) ans)\<rparr>"
proof (cases "dict_get body_json (str ''question'') (JStr [])")
  case (Inl e)
  with assms show ?thesis by (simp add: ask_route_def)
next
  case (Inr v)
  show ?thesis
  proof (cases "str_strip v")
    case (Inl e)
    with Inr assms show ?thesis by (simp add: ask_route_def)
  next
    case q_text: (Inr q_text)
    then obtain q where v: "v = JStr q" and q: "q_text = strip q"
      using str_strip_Inr by blast
    have get: "dict_get body_json (str ''question'') (JStr []) = Inr (JStr q)"
      using Inr v by simp
    have nonempty: "strip q \<noteq> []"
      using assms by (auto simp: ask_question [OF get])
    show ?thesis
    proof (cases "key_missing key")
      case True
      with assms nonempty obtain db' where
        s: "save_query_to_db (io SaveNoKey) (strip q) config_error_text (Some t0) = Inr db'"
        and r: "resp = answer_response 500 config_error_text" and d: "db' = Some t"
        by (auto simp: ask_question [OF get] split: sum.splits)
      from save_Inr [OF s] d r get show ?thesis
        by (auto simp: answer_response_def)
    next
      case False
      show ?thesis
      proof (cases "ask_try gen io (strip q) (Some t0)")
        case (Inl exc)
        with assms nonempty False obtain db' where
          s: "save_query_to_db (io SaveInHandler) (strip q)
                (str ''Error calling Gemini: '' @ exc) (Some t0) = Inr db'"
          and r: "resp = answer_response 500 (str ''Error calling Gemini: '' @ exc)"
          and d: "db' = Some t"
          by (auto simp: ask_question [OF get] split: sum.splits)
        from save_Inr [OF s] d r get show ?thesis
          by (auto simp: answer_response_def)
      next
        case ok: (Inr p)
        with assms nonempty False have p: "p = (resp, Some t)"
          by (auto simp: ask_question [OF get] split: prod.splits)
        with ok obtain ans where
          s: "save_query_to_db (io SaveInTry) (strip q) ans (Some t0) = Inr (Some t)"
          and r: "resp = answer_response 200 ans"
          by (auto simp: ask_try_def split: sum.splits)
        from save_Inr [OF s] r get show ?thesis
          by (auto simp: answer_response_def)
      qed
    qed
  qed
qed

lemma ask_try_state:
  "ask_try gen io q db = Inr (resp, db') \<Longrightarrow>
   \<exists>ans. db' = state_after db (save_query_to_db (io SaveInTry) q ans db)"
proof -
  assume h: "ask_try gen io q db = Inr (resp, db')"
  then obtain ans where "gen q = Inr ans" and "save_query_to_db (io SaveInTry) q ans db = Inr db'"
    by (auto simp: ask_try_def split: sum.splits)
  then have "db' = state_after db (save_query_to_db (io SaveInTry) q ans db)"
    by (simp add: state_after_def)
  then show ?thesis by blast
qed

lemma ask_route_state:
  "snd (ask_route key gen io body_json db) = db \<or>
   (\<exists>a q ans. snd (ask_route key gen io body_json db) = state_after db (save_query_to_db a q ans db))"
proof (cases "dict_get body_json (str ''question'') (JStr [])")
  case (Inl e)
  then show ?thesis by (simp add: ask_route_def)
next
  case (Inr v)
  show ?thesis
  proof (cases "str_strip v")
    case (Inl e)
    with Inr show ?thesis by (simp add: ask_route_def)
  next
    case q: (Inr q_text)
    show ?thesis
    proof (cases "q_text = []")
      case True
      with Inr q show ?thesis by (simp add: ask_route_def)
    next
      case nonempty: False
      show ?thesis
      proof (cases "key_missing key")
        case True
        with Inr q nonempty
        have "snd (ask_route key gen io body_json db) =
                state_after db (save_query_to_db (io SaveNoKey) q_text config_error_text db)"
          by (simp add: ask_route_def state_after_def split: sum.split)
        then show ?thesis by blast
      next
        case False
        show ?thesis
        proof (cases "ask_try gen io q_text db")
          case (Inl exc)
          with Inr q nonempty False
          have "snd (ask_route key gen io body_json db) =
                  state_after db (save_query_to_db (io SaveInHandler) q_text
                                    (str ''Error calling Gemini: '' @ exc) db)"
            by (simp add: ask_route_def state_after_def Let_def split: sum.split)
          then show ?thesis by blast
        next
          case ok: (Inr p)
          obtain resp db' where p: "p = (resp, db')" by (cases p)
          with ok Inr q nonempty False
          have "snd (ask_route key gen io body_json db) = db'"
            by (simp add: ask_route_def)
          moreover from ok p obtain ans
            where "db' = state_after db (save_query_to_db (io SaveInTry) q_text ans db)"
            using ask_try_state by blast
          ultimately show ?thesis by blast
        qed
      qed
    qed
  qed
qed

subsection \<open>The query of History\<close>

lemma last_sort_key_greatest:
  assumes "\<forall>x \<in> set rs. qid x < qid r"
  shows "last (sort_key qid (rs @ [r])) = r"
proof -
  let ?xs = "sort_key qid (rs @ [r])"
  have ne: "?xs \<noteq> []"
    by (metis Nil_is_append_conv length_0_conv length_sort not_Cons_self2)
  have mem: "last ?xs \<in> set rs \<union> {r}"
    using last_in_set [OF ne] by simp
  have "r \<in> set ?xs" by simp
  then obtain i where i: "i < length ?xs" and xi: "?xs ! i = r"
    by (meson in_set_conv_nth)
  have "sorted (map qid ?xs)" by (rule sorted_sort_key)
  then have "qid (?xs ! i) \<le> qid (?xs ! (length ?xs - 1))"
    using i by (simp add: sorted_iff_nth_mono)
  then have "qid r \<le> qid (last ?xs)"
    using xi ne by (simp add: last_conv_nth)
  with mem assms show ?thesis by fastforce
qed

lemma hd_select_recent_append:
  assumes "\<forall>x \<in> set rs. qid x < qid r" and "0 < n"
  shows "select_recent n \<lparr>rows = rs @ [r], seq = s\<rparr> \<noteq> [] \<and>
         hd (select_recent n \<lparr>rows = rs @ [r], seq = s\<rparr>) = r"
proof -
  let ?xs = "sort_key qid (rs @ [r])"
  have ne: "?xs \<noteq> []"
    by (metis Nil_is_append_conv length_0_conv length_sort not_Cons_self2)
  then have "hd (take n (rev ?xs)) = last ?xs"
    using assms(2) by (simp add: hd_rev)
  moreover have "take n (rev ?xs) \<noteq> []"
    using ne assms(2) by simp
  ultimately show ?thesis
    using last_sort_key_greatest [OF assms(1)] by (simp add: select_recent_def)
qed

lemma select_recent_length: "length (select_recent n t) = min (length (rows t)) n"
  by (simp add: select_recent_def)

lemma select_recent_subset: "set (select_recent n t) \<subseteq> set (rows t)"
  using set_take_subset [of n "rev (sort_key qid (rows t))"] by (simp add: select_recent_def)

lemma map_insort_key: "map f (insort_key f x ys) = insort (f x) (map f ys)"
  by (induction ys) auto

lemma map_sort_key: "map f (sort_key f xs) = sort (map f xs)"
  by (induction xs) (simp_all add: map_insort_key)

lemma select_recent_ids: "map qid (select_recent n t) = take n (rev (sort (map qid (rows t))))"
  by (simp only: select_recent_def map_sort_key [symmetric] rev_map take_map)

lemma select_recent_descending:
  assumes "distinct (map qid (rows t))"
  shows "sorted_wrt (\<lambda>r r'. qid r' < qid r) (select_recent n t)"
proof -
  let ?xs = "sort_key qid (rows t)"
  have "distinct (map qid ?xs)"
    using assms by (simp add: distinct_map)
  moreover have "sorted (map qid ?xs)" by (rule sorted_sort_key)
  ultimately have "sorted_wrt (<) (map qid ?xs)"
    by (simp add: strict_sorted_iff)
  then have "sorted_wrt (\<lambda>r r'. qid r < qid r') ?xs"
    by (simp add: sorted_wrt_map)
  then have "sorted_wrt (\<lambda>r r'. qid r' < qid r) (rev ?xs)"
    by (simp add: sorted_wrt_rev)
  then show ?thesis
    unfolding select_recent_def by (rule sorted_wrt_take)
qed

lemma select_recent_newest:
  assumes "distinct (map qid (rows t))" and "r \<in> set (rows t)" and "r \<notin> set (select_recent n t)"
      and "h \<in> set (select_recent n t)"
  shows "qid r < qid h"
proof -
  let ?ys = "rev (sort_key qid (rows t))"
  have desc: "sorted_wrt (\<lambda>r r'. qid r' < qid r) ?ys"
    using select_recent_descending [OF assms(1), of "length (rows t)"]
    by (simp add: select_recent_def)
  have "?ys = take n ?ys @ drop n ?ys" by simp
  then have "sorted_wrt (\<lambda>r r'. qid r' < qid r) (take n ?ys @ drop n ?ys)"
    using desc by simp
  then have *: "\<forall>x \<in> set (take n ?ys). \<forall>y \<in> set (drop n ?ys). qid y < qid x"
    unfolding sorted_wrt_append by blast
  have "r \<in> set ?ys" using assms(2) by simp
  then have "r \<in> set (take n ?ys) \<union> set (drop n ?ys)"
    by (metis append_take_drop_id set_append)
  with assms(3) have "r \<in> set (drop n ?ys)"
    by (simp add: select_recent_def)
  with * assms(4) show ?thesis
    by (simp add: select_recent_def)
qed

subsection \<open>The invariant\<close>

lemma step_ok_same: "table_inv t \<Longrightarrow> step_ok t (Some t)"
  by (simp add: step_ok_def row_step_def)

lemma step_ok_clear: "table_inv t \<Longrightarrow> step_ok t (Some (t\<lparr>rows := []\<rparr>))"
  by (simp add: step_ok_def row_step_def table_inv_def)

lemma step_ok_append:
  assumes "table_inv t"
  shows "step_ok t (Some \<lparr>rows = rows t @ [new_row t a q ans], seq = qid (new_row t a q ans)\<rparr>)"
proof -
  have "\<forall>r \<in> set (rows t). qid r < qid (new_row t a q ans)"
    by (rule new_row_greatest)
  moreover have "seq t < qid (new_row t a q ans)"
    by (simp add: new_row_def next_rowid_above_seq)
  ultimately show ?thesis
    using assms
    by (auto simp: step_ok_def row_step_def table_inv_def sorted_wrt_append new_row_def)
qed

lemma step_ok_save:
  "table_inv t \<Longrightarrow> step_ok t (state_after (Some t) (save_query_to_db a q ans (Some t)))"
  using save_cases [of a q ans t]
  by (auto simp: state_after_def step_ok_same step_ok_append)

lemma step_ok_clear_db:
  "table_inv t \<Longrightarrow> step_ok t (state_after (Some t) (clear_db_queries a (Some t)))"
  by (auto simp: state_after_def clear_db_queries_def step_ok_same step_ok_clear split: option.split)

lemma step_ok_init:
  "table_inv t \<Longrightarrow> step_ok t (state_after (Some t) (init_db_if_missing a (Some t)))"
  by (auto simp: state_after_def init_db_if_missing_def step_ok_same split: option.split)

lemma clear_route_state:
  "snd (clear_history_route a db) = state_after db (clear_db_queries a db)"
  by (simp add: clear_history_route_def state_after_def split: sum.split)

lemma history_route_state: "snd (history_route a db) = db"
  by (simp add: history_route_def split: option.split)

subsection \<open>The textual form of timestamps sorts as the instants do\<close>



















subsection \<open>The examples\<close>

lemma example_question:
  "dict_get example_body (str ''question'') (JStr []) = Inr (JStr (str '' 2+2? ''))"
  by (simp add: example_body_def dict_get_def)

lemma example_strip: "strip (str '' 2+2? '') = str ''2+2?''"
  by (simp add: strip_def py_isspace_def str_def)

lemma example_encodable: "encodable (str '' 2+2? '')"
  by (simp add: encodable_def surrogate_def str_def)

lemma four_encodable: "encodable (str ''4'')"
  by (simp add: encodable_def surrogate_def str_def)

lemma example_rows_next: "next_rowid example_rows = 3"
  by (simp add: next_rowid_def example_rows_def)

lemma example_rows_insertable: "insertable example_rows"
  by (simp add: insertable_def rowid_full_def example_rows_def)

lemma storage_up_ok: "storage_ok (storage_up s)"
  by (simp add: storage_ok_def storage_up_def example_access_def)





lemma example_ask:
  "ask_route (Some (str ''k'')) gateway_four storage_up example_body (Some example_rows) =
     (Inr (answer_response 200 (str ''4'')),
      Some \<lparr>rows = rows example_rows @
               [\<lparr>qid = 3, question = str ''2+2?'', answer = Some (str ''4''),
                 timestamp = isoformat (utcnow example_access)\<rparr>],
             seq = 3\<rparr>)"
proof -
  have "save_query_to_db (storage_up SaveInTry) (str ''2+2?'') (str ''4'') (Some example_rows) =
          Inr (Some \<lparr>rows = rows example_rows @
                 [new_row example_rows (storage_up SaveInTry) (str ''2+2?'') (str ''4'')],
               seq = qid (new_row example_rows (storage_up SaveInTry) (str ''2+2?'') (str ''4''))\<rparr>)"
    by (rule save_ok [OF storage_up_ok example_rows_insertable])
      (simp_all add: encodable_def surrogate_def str_def)
  then show ?thesis
    by (simp add: ask_question [OF example_question] example_strip key_missing_def ask_try_def
        new_row_def example_rows_next storage_up_def gateway_four_def)
qed

section \<open>The claims\<close>




text \<open>
  Claim C2. When the question is empty or consists of whitespace only (a missing
  \<open>question\<close> key counts as the empty string), Ask responds 400 with the body
  \<open>{"error": "Empty question"}\<close> and the database is as before; no save is attempted,
  so this holds whatever the storage does.
\<close>

theorem ask_rejects_empty_question:
  assumes "dict_get body_json (str ''question'') (JStr []) = Inr (JStr q)"
      and "\<forall>c \<in> set q. py_isspace c"
    shows "ask_route key gen io body_json db =
             (Inr \<lparr>status = 400,
                   body = JObj [str ''error'' \<mapsto> JStr (str ''Empty question'')]\<rparr>, db)"
  using assms by (simp add: ask_question strip_Nil_iff)

theorem ask_rejects_empty_question_witness:
  "dict_get (JObj [str ''question'' \<mapsto> JStr (str ''  '')]) (str ''question'') (JStr []) =
     Inr (JStr (str ''  '')) \<and>
   strip (str ''  '') = [] \<and>
   ask_route (Some (str ''k'')) gateway_four storage_up
       (JObj [str ''question'' \<mapsto> JStr (str ''  '')]) (Some empty_table) =
     (Inr \<lparr>status = 400, body = JObj [str ''error'' \<mapsto> JStr (str ''Empty question'')]\<rparr>,
      Some empty_table)"
proof -
  have h1: "dict_get (JObj [str ''question'' \<mapsto> JStr (str ''  '')]) (str ''question'') (JStr []) =
              Inr (JStr (str ''  ''))"
    by (simp add: dict_get_def)
  have h2: "\<forall>c \<in> set (str ''  ''). py_isspace c"
    by (simp add: py_isspace_def str_def)
  have h3: "strip (str ''  '') = []"
    using h2 by (simp only: strip_Nil_iff)
  show ?thesis
    using h1 h3 ask_rejects_empty_question [OF h1 h2] by simp
qed







text \<open>
  Claim C5. On a table of N rows with distinct ids (the primary key), History responds
  200 with \<open>min N 50\<close> entries. Each entry is a row of the table, given with its four
  fields as they are stored; the ids of the entries are the 50 largest ids of the
  table (or all of them), in strictly descending order. On an empty table the list is
  empty and the status is still 200. When the table is the one that an answered Ask
  has just left, the first row returned holds the trimmed question of that call and
  the answer that its response carried.
\<close>

theorem history_returns_recent:
  assumes "storage_ok a" and "distinct (map qid (rows t))"
  shows "history_route a (Some t) =
           (Inr \<lparr>status = 200,
                 body = JObj [str ''history'' \<mapsto>
                   JArr (map (\<lambda>r. JObj [str ''id'' \<mapsto> JInt (qid r),
                                         str ''question'' \<mapsto> JStr (question r),
                                         str ''answer'' \<mapsto>
                                           (case answer r of None \<Rightarrow> JNull | Some x \<Rightarrow> JStr x),
                                         str ''timestamp'' \<mapsto> JStr (timestamp r)])
                          (select_recent 50 t))]\<rparr>,
            Some t) \<and>
         set (select_recent 50 t) \<subseteq> set (rows t) \<and>
         map qid (select_recent 50 t) = take 50 (rev (sort (map qid (rows t)))) \<and>
         length (select_recent 50 t) = min (length (rows t)) 50 \<and>
         sorted_wrt (\<lambda>r r'. qid r' < qid r) (select_recent 50 t) \<and>
         history_route a (Some (t\<lparr>rows := []\<rparr>)) =
           (Inr \<lparr>status = 200, body = JObj [str ''history'' \<mapsto> JArr []]\<rparr>,
            Some (t\<lparr>rows := []\<rparr>)) \<and>
         (ask_route key gen io body_json (Some t0) = (Inr resp, Some t) \<and> status resp \<noteq> 400 \<longrightarrow>
            (\<exists>q ans. dict_get body_json (str ''question'') (JStr []) = Inr (JStr q) \<and>
                body resp = JObj [str ''answer'' \<mapsto> JStr ans] \<and>
                select_recent 50 t \<noteq> [] \<and>
                question (hd (select_recent 50 t)) = strip q \<and>
                answer (hd (select_recent 50 t)) = Some ans))"
proof -
  have up: "open_fault a = None" "step_fault a = None"
    using assms(1) by (simp_all add: storage_ok_def)
  have dict: "row_dict = (\<lambda>r. JObj [str ''id'' \<mapsto> JInt (qid r),
                                    str ''question'' \<mapsto> JStr (question r),
                                    str ''answer'' \<mapsto>
                                      (case answer r of None \<Rightarrow> JNull | Some x \<Rightarrow> JStr x),
                                    str ''timestamp'' \<mapsto> JStr (timestamp r)])"
    by (rule ext) (simp add: row_dict_def)
  have route: "history_route a (Some t) =
           (Inr \<lparr>status = 200,
                 body = JObj [str ''history'' \<mapsto> JArr (map row_dict (select_recent 50 t))]\<rparr>,
            Some t)"
    using up by (simp add: history_route_def)
  have empty: "history_route a (Some (t\<lparr>rows := []\<rparr>)) =
           (Inr \<lparr>status = 200, body = JObj [str ''history'' \<mapsto> JArr []]\<rparr>,
            Some (t\<lparr>rows := []\<rparr>))"
    using up by (simp add: history_route_def select_recent_def)
  have newest: "\<exists>q ans. dict_get body_json (str ''question'') (JStr []) = Inr (JStr q) \<and>
                body resp = JObj [str ''answer'' \<mapsto> JStr ans] \<and>
                select_recent 50 t \<noteq> [] \<and>
                question (hd (select_recent 50 t)) = strip q \<and>
                answer (hd (select_recent 50 t)) = Some ans"
    if h: "ask_route key gen io body_json (Some t0) = (Inr resp, Some t)" "status resp \<noteq> 400"
  proof -
    from ask_route_answered [OF h] obtain q ans a' where
      get: "dict_get body_json (str ''question'') (JStr []) = Inr (JStr q)" and
      b: "body resp = JObj [str ''answer'' \<mapsto> JStr ans]" and
      t: "t = \<lparr>rows = rows t0 @ [new_row t0 a' (strip q) ans],
               seq = qid (new_row t0 a' (strip q) ans)\<rparr>"
      by blast
    have "select_recent 50 t \<noteq> [] \<and> hd (select_recent 50 t) = new_row t0 a' (strip q) ans"
      unfolding t by (rule hd_select_recent_append [OF new_row_greatest]) simp
    then show ?thesis
      using get b by (auto simp: new_row_def)
  qed
  show ?thesis
    using route [unfolded dict] empty select_recent_length [of 50 t]
      select_recent_descending [OF assms(2)] select_recent_subset [of 50 t]
      select_recent_ids [of 50 t] newest
    by blast
qed

theorem history_returns_recent_witness:
  "history_route example_access
     (Some \<lparr>rows = rows example_rows @
               [\<lparr>qid = 3, question = str ''2+2?'', answer = Some (str ''4''),
                 timestamp = isoformat (utcnow example_access)\<rparr>],
             seq = 3\<rparr>) =
     (Inr \<lparr>status = 200,
           body = JObj [str ''history'' \<mapsto> JArr
             [JObj [str ''id'' \<mapsto> JInt 3, str ''question'' \<mapsto> JStr (str ''2+2?''),
                    str ''answer'' \<mapsto> JStr (str ''4''),
                    str ''timestamp'' \<mapsto> JStr (isoformat (utcnow example_access))],
              JObj [str ''id'' \<mapsto> JInt 2, str ''question'' \<mapsto> JStr (str ''why?''),
                    str ''answer'' \<mapsto> JStr (str ''Error calling Gemini: timeout''),
                    str ''timestamp'' \<mapsto> JStr (str ''2024-03-09T07:04:59.500000'')],
              JObj [str ''id'' \<mapsto> JInt 1, str ''question'' \<mapsto> JStr (str ''hi''),
                    str ''answer'' \<mapsto> JStr (str ''hello''),
                    str ''timestamp'' \<mapsto> JStr (str ''2024-03-09T07:04:58'')]]]\<rparr>,
      Some \<lparr>rows = rows example_rows @
               [\<lparr>qid = 3, question = str ''2+2?'', answer = Some (str ''4''),
                 timestamp = isoformat (utcnow example_access)\<rparr>],
             seq = 3\<rparr>)"
proof -
  let ?t = "\<lparr>rows = rows example_rows @
               [\<lparr>qid = 3, question = str ''2+2?'', answer = Some (str ''4''),
                 timestamp = isoformat (utcnow example_access)\<rparr>],
             seq = 3\<rparr>"
  have h1: "storage_ok example_access"
    using storage_up_ok [of SaveInTry] by (simp add: storage_up_def)
  have h2: "distinct (map qid (rows ?t))"
    by (simp add: example_rows_def)
  have h3: "status (answer_response 200 (str ''4'')) \<noteq> 400"
    by (simp add: answer_response_def)
  have recent: "select_recent 50 ?t =
    [\<lparr>qid = 3, question = str ''2+2?'', answer = Some (str ''4''),
      timestamp = isoformat (utcnow example_access)\<rparr>,
     \<lparr>qid = 2, question = str ''why?'', answer = Some (str ''Error calling Gemini: timeout''),
      timestamp = str ''2024-03-09T07:04:59.500000''\<rparr>,
     \<lparr>qid = 1, question = str ''hi'', answer = Some (str ''hello''),
      timestamp = str ''2024-03-09T07:04:58''\<rparr>]"
    by (simp add: select_recent_def example_rows_def)
  show ?thesis
    using history_returns_recent [OF h1 h2, where key = "Some (str ''k'')" and gen = gateway_four
        and io = storage_up and body_json = example_body and ?t0.0 = example_rows
        and resp = "answer_response 200 (str ''4'')"] example_ask h3 recent
    by simp
qed

text \<open>
  Claim C6. ClearHistory responds 200 with the confirmation body and leaves the table
  in place with no rows, however many there were. History on the result returns the
  empty list. Clearing again gives the same response and the same state. The table
  still takes inserts: the next row gets the id after the sequence, which the clear
  has kept.
\<close>

theorem clear_history_empties:
  assumes "storage_ok a" and "storage_ok a'"
  shows "clear_history_route a (Some t) =
           (Inr \<lparr>status = 200,
                 body = JObj [str ''success'' \<mapsto> JBool True,
                              str ''message'' \<mapsto> JStr (str ''History cleared'')]\<rparr>,
            Some (t\<lparr>rows := []\<rparr>)) \<and>
         history_route a' (Some (t\<lparr>rows := []\<rparr>)) =
           (Inr \<lparr>status = 200, body = JObj [str ''history'' \<mapsto> JArr []]\<rparr>,
            Some (t\<lparr>rows := []\<rparr>)) \<and>
         clear_history_route a' (Some (t\<lparr>rows := []\<rparr>)) =
           (Inr \<lparr>status = 200,
                 body = JObj [str ''success'' \<mapsto> JBool True,
                              str ''message'' \<mapsto> JStr (str ''History cleared'')]\<rparr>,
            Some (t\<lparr>rows := []\<rparr>)) \<and>
         (insertable (t\<lparr>rows := []\<rparr>) \<and> encodable q \<and> encodable ans \<longrightarrow>
          save_query_to_db a' q ans (Some (t\<lparr>rows := []\<rparr>)) =
            Inr (Some \<lparr>rows = [new_row (t\<lparr>rows := []\<rparr>) a' q ans],
                       seq = qid (new_row (t\<lparr>rows := []\<rparr>) a' q ans)\<rparr>))"
  using assms
  by (simp add: clear_history_route_def clear_db_queries_def history_route_def select_recent_def
      save_ok storage_ok_def)

theorem clear_history_empties_witness:
  "clear_history_route example_access (Some example_rows) =
     (Inr \<lparr>status = 200,
           body = JObj [str ''success'' \<mapsto> JBool True,
                        str ''message'' \<mapsto> JStr (str ''History cleared'')]\<rparr>,
      Some \<lparr>rows = [], seq = 2\<rparr>) \<and>
   history_route example_access (Some \<lparr>rows = [], seq = 2\<rparr>) =
     (Inr \<lparr>status = 200, body = JObj [str ''history'' \<mapsto> JArr []]\<rparr>, Some \<lparr>rows = [], seq = 2\<rparr>) \<and>
   clear_history_route example_access (Some \<lparr>rows = [], seq = 2\<rparr>) =
     (Inr \<lparr>status = 200,
           body = JObj [str ''success'' \<mapsto> JBool True,
                        str ''message'' \<mapsto> JStr (str ''History cleared'')]\<rparr>,
      Some \<lparr>rows = [], seq = 2\<rparr>) \<and>
   save_query_to_db example_access (str ''2+2?'') (str ''4'') (Some \<lparr>rows = [], seq = 2\<rparr>) =
     Inr (Some \<lparr>rows = [\<lparr>qid = 3, question = str ''2+2?'', answer = Some (str ''4''),
                            timestamp = isoformat (utcnow example_access)\<rparr>], seq = 3\<rparr>)"
proof -
  have h1: "storage_ok example_access"
    using storage_up_ok [of SaveInTry] by (simp add: storage_up_def)
  have h2: "insertable (example_rows\<lparr>rows := []\<rparr>)"
    by (simp add: insertable_def rowid_full_def example_rows_def)
  have h3: "encodable (str ''2+2?'')"
    using encodable_strip [OF example_encodable] by (simp add: example_strip)
  have c: "example_rows\<lparr>rows := []\<rparr> = \<lparr>rows = [], seq = 2\<rparr>"
    by (simp add: example_rows_def)
  have n: "next_rowid \<lparr>rows = [], seq = 2\<rparr> = 3"
    by (simp add: next_rowid_def)
  show ?thesis
    using clear_history_empties [OF h1 h1, of example_rows "str ''2+2?''" "str ''4''"] h2 h3
      four_encodable
    by (simp add: c n new_row_def)
qed



text \<open>
  Claim C8. Every store function and every route keeps the invariant of the table
  (ids strictly increasing in insertion order, no answer NULL) and changes the rows
  only in one of three ways: not at all, by one new row at the end with an id above
  all ids given out before, or by removing all of them. So no row is ever altered and
  no single row is ever removed. Initialisation of a file without the table creates the
  empty table, which satisfies the invariant.
\<close>

theorem store_invariants_preserved:
  assumes "table_inv t"
  shows "step_ok t (state_after (Some t) (init_db_if_missing a (Some t))) \<and>
         step_ok t (state_after (Some t) (save_query_to_db a q ans (Some t))) \<and>
         step_ok t (state_after (Some t) (clear_db_queries a (Some t))) \<and>
         step_ok t (snd (ask_route key gen io body_json (Some t))) \<and>
         step_ok t (snd (history_route a (Some t))) \<and>
         step_ok t (snd (clear_history_route a (Some t))) \<and>
         table_inv empty_table \<and>
         (case init_db_if_missing a None of Inl e \<Rightarrow> True | Inr db' \<Rightarrow> db' = Some empty_table)"
proof -
  have "step_ok t (snd (ask_route key gen io body_json (Some t)))"
    using ask_route_state [of key gen io body_json "Some t"] assms
    by (auto simp: step_ok_same step_ok_save)
  moreover have "table_inv empty_table"
    by (simp add: table_inv_def empty_table_def)
  moreover have "case init_db_if_missing a None of Inl e \<Rightarrow> True | Inr db' \<Rightarrow> db' = Some empty_table"
    by (simp add: init_db_if_missing_def empty_table_def split: option.split)
  ultimately show ?thesis
    using assms
    by (simp add: step_ok_init step_ok_save step_ok_clear_db clear_route_state
        history_route_state step_ok_same)
qed

theorem store_invariants_preserved_witness:
  "table_inv example_rows \<and>
   step_ok example_rows
     (state_after (Some example_rows) (init_db_if_missing example_access (Some example_rows))) \<and>
   step_ok example_rows
     (state_after (Some example_rows)
        (save_query_to_db example_access (str ''2+2?'') (str ''4'') (Some example_rows))) \<and>
   step_ok example_rows
     (state_after (Some example_rows) (clear_db_queries example_access (Some example_rows))) \<and>
   step_ok example_rows
     (snd (ask_route (Some (str ''k'')) gateway_four storage_up example_body (Some example_rows))) \<and>
   step_ok example_rows (snd (history_route example_access (Some example_rows))) \<and>
   step_ok example_rows (snd (clear_history_route example_access (Some example_rows))) \<and>
   init_db_if_missing example_access None = Inr (Some empty_table)"
proof -
  have h: "table_inv example_rows"
    by (simp add: table_inv_def example_rows_def)
  have i: "init_db_if_missing example_access None = Inr (Some \<lparr>rows = [], seq = 0\<rparr>)"
    by (simp add: init_db_if_missing_def example_access_def)
  show ?thesis
    using h store_invariants_preserved [OF h, of example_access "str ''2+2?''" "str ''4''"
        "Some (str ''k'')" gateway_four storage_up example_body] i
    by (simp add: empty_table_def)
qed




text \<open>
  A remark on when the storage fails after the parameters are bound (the database is
  locked, the disk fails): a text that cannot be encoded is refused first, so the
  exception that leaves is the \<open>UnicodeEncodeError\<close>.
\<close>

lemma save_unencodable_before_step_fault:
  assumes "open_fault a = None" and "step_fault a = Some m" and "\<not> encodable q"
  shows "save_query_to_db a q ans (Some t) = Inl (encode_error q)"
  using assms by (simp add: save_query_to_db_def)

text \<open>
  Claim C10. When the \<open>question\<close> key is present with a value that is not a string
  (null, a number, a list, ...), \<open>strip\<close> raises \<open>AttributeError\<close> before the
  emptiness test: the exception leaves Ask uncaught, there is no 400 response, and
  the database is as before.
\<close>

theorem ask_non_string_question:
  assumes "body_json = JObj m" and "m (str ''question'') = Some v" and "\<forall>s. v \<noteq> JStr s"
  shows "ask_route key gen io body_json db = (Inl (no_attribute v (str ''strip'')), db)"
  using assms by (cases v) (simp_all add: ask_route_def dict_get_def str_strip_def)

theorem ask_non_string_question_witness:
  "ask_route (Some (str ''k'')) gateway_four storage_up (JObj [str ''question'' \<mapsto> JNull])
       (Some empty_table) =
     (Inl (AttributeError
             ([39] @ str ''NoneType'' @ [39] @ str '' object has no attribute '' @
              [39] @ str ''strip'' @ [39])),
      Some empty_table)"
  using ask_non_string_question [where body_json = "JObj [str ''question'' \<mapsto> JNull]"
      and m = "[str ''question'' \<mapsto> JNull]" and v = JNull]
  by (simp add: no_attribute_def)

end
